theory Spec2Isabelle
  imports Complex_Main "HOL-Library.Word" "HOL-Library.List_Lexorder"
begin

section \<open>The cache gate of the citation-network page (src/pages/AllPapers.tsx)\<close>

text \<open>
  The page \<^verbatim>\<open>AllPapers\<close> derives the seed identifiers \<^verbatim>\<open>seedDois\<close> and the cache
  signature \<^verbatim>\<open>cacheSig\<close> from the loaded papers, and \<^verbatim>\<open>buildOrLoad\<close> either reuses the
  graph kept in \<^verbatim>\<open>localStorage\<close> under \<^verbatim>\<open>CACHE_KEY\<close> or calls \<^verbatim>\<open>buildCitationGraph\<close>
  and stores what it returns. This theory embeds those functions and proves the
  properties of the cache gate on them.
\<close>

subsection \<open>Strings\<close>

text \<open>
  A JavaScript string is a sequence of 16-bit code units. \<^verbatim>\<open>Array.prototype.sort\<close> without
  a comparator orders strings code unit by code unit, a proper prefix first: the
  lexicographic order of \<open>HOL-Library.List_Lexorder\<close> over the unsigned order of words.
\<close>

type_synonym jsstring = "16 word list"

text \<open>The code units of a string literal written in ASCII.\<close>

definition ascii :: "string \<Rightarrow> jsstring" where
  "ascii s = map (\<lambda>c. of_nat (of_char c)) s"

text \<open>
  \<^verbatim>\<open>String.prototype.trim\<close> strips white space and line terminators from both ends:
  TAB, LF, VT, FF, CR, SP, NBSP, U+1680, U+2000..U+200A, U+2028, U+2029, U+202F, U+205F,
  U+3000 and U+FEFF.
\<close>

definition is_white :: "16 word \<Rightarrow> bool" where
  "is_white c =
     (c \<in> set [0x9, 0xA, 0xB, 0xC, 0xD, 0x20, 0xA0, 0x1680, 0x2028, 0x2029, 0x202F, 0x205F,
               0x3000, 0xFEFF]
      \<or> (0x2000 \<le> c \<and> c \<le> 0x200A))"

definition trim :: "jsstring \<Rightarrow> jsstring" where
  "trim s = rev (dropWhile is_white (rev (dropWhile is_white s)))"

text \<open>\<^verbatim>\<open>xs.join(sep)\<close> on an array of strings.\<close>

fun join :: "jsstring \<Rightarrow> jsstring list \<Rightarrow> jsstring" where
  "join sep [] = []"
| "join sep [x] = x"
| "join sep (x # y # ys) = x @ sep @ join sep (y # ys)"

subsection \<open>Seed identifiers and the signature (lines 72-87)\<close>

text \<open>
  The declaration of \<^verbatim>\<open>Paper\<close> (\<^verbatim>\<open>./lib/papers.ts\<close>) is not among the sources; the
  record has the two fields the seed computation reads. \<open>None\<close> is a field that is
  \<^verbatim>\<open>undefined\<close> or \<^verbatim>\<open>null\<close>.
\<close>

record paper =
  doi :: "jsstring option"
  title :: "jsstring option"

text \<open>Truthiness of an optional string: \<^verbatim>\<open>undefined\<close>, \<^verbatim>\<open>null\<close> and \<^verbatim>\<open>""\<close> are falsy.\<close>

fun truthy_str :: "jsstring option \<Rightarrow> bool" where
  "truthy_str None = False"
| "truthy_str (Some s) = (s \<noteq> [])"

text \<open>
  The plain object \<^verbatim>\<open>titles\<close> is represented by its own properties, a map from keys to
  values; the order in which an object enumerates its keys is not represented.
  \<^verbatim>\<open>titles[k] = v\<close> with a string \<open>v\<close> sets the own property \<open>k\<close>, except for the key
  \<^verbatim>\<open>__proto__\<close>: that assignment reaches the accessor of \<^verbatim>\<open>Object.prototype\<close>, whose
  setter ignores a value that is neither an object nor \<^verbatim>\<open>null\<close>, and the object stays as
  it is.
\<close>

definition obj_set :: "(jsstring \<rightharpoonup> jsstring) \<Rightarrow> jsstring \<Rightarrow> jsstring \<Rightarrow> (jsstring \<rightharpoonup> jsstring)" where
  "obj_set titles k v = (if k = ascii ''__proto__'' then titles else titles(k \<mapsto> v))"

text \<open>
  The body of the loop \<^verbatim>\<open>for (const p of papers)\<close>:
  \<^verbatim>\<open>if (p.doi && p.doi.trim()) dois.push(p.doi.trim());\<close>
  \<^verbatim>\<open>if (p.doi && p.title) titles[p.doi.trim()] = p.title;\<close>
\<close>

definition push_doi :: "paper \<Rightarrow> jsstring list \<Rightarrow> jsstring list" where
  "push_doi p dois =
     (case doi p of
        None \<Rightarrow> dois
      | Some d \<Rightarrow> if truthy_str (Some d) \<and> truthy_str (Some (trim d)) then dois @ [trim d] else dois)"

definition put_title :: "paper \<Rightarrow> (jsstring \<rightharpoonup> jsstring) \<Rightarrow> (jsstring \<rightharpoonup> jsstring)" where
  "put_title p titles =
     (case (doi p, title p) of
        (Some d, Some t) \<Rightarrow>
          if truthy_str (Some d) \<and> truthy_str (Some t) then obj_set titles (trim d) t else titles
      | _ \<Rightarrow> titles)"

fun collect :: "paper list \<Rightarrow> jsstring list \<times> (jsstring \<rightharpoonup> jsstring)
    \<Rightarrow> jsstring list \<times> (jsstring \<rightharpoonup> jsstring)" where
  "collect [] acc = acc"
| "collect (p # ps) (dois, titles) = collect ps (push_doi p dois, put_title p titles)"

text \<open>
  \<^verbatim>\<open>Array.from(new Set(dois))\<close>: a \<^verbatim>\<open>Set\<close> keeps each value once, in the order of first
  insertion.
\<close>

definition Set_add :: "'a list \<Rightarrow> 'a \<Rightarrow> 'a list" where
  "Set_add s x = (if x \<in> set s then s else s @ [x])"

definition Array_from_new_Set :: "'a list \<Rightarrow> 'a list" where
  "Array_from_new_Set xs = foldl Set_add [] xs"

definition seedDois :: "paper list \<Rightarrow> jsstring list" where
  "seedDois papers = Array_from_new_Set (fst (collect papers ([], Map.empty)))"

definition titlesByDoi :: "paper list \<Rightarrow> (jsstring \<rightharpoonup> jsstring)" where
  "titlesByDoi papers = snd (collect papers ([], Map.empty))"

text \<open>\<^verbatim>\<open>seedDois.slice().sort().join("|")\<close>, as a function of \<^verbatim>\<open>seedDois\<close>.\<close>

definition cacheSig :: "jsstring list \<Rightarrow> jsstring" where
  "cacheSig seeds = join (ascii ''|'') (sort seeds)"

subsection \<open>JavaScript values read back from the cache\<close>

text \<open>
  The values \<^verbatim>\<open>JSON.parse\<close> returns. An object lists each of its own properties once.
  A number stands for its numeric value, which is all the page looks at (whether it is
  zero). \<open>None :: json option\<close> is \<^verbatim>\<open>undefined\<close>.
\<close>

datatype json =
    JNull
  | JBool bool
  | JNum rat
  | JStr jsstring
  | JArr "json list"
  | JObj "(jsstring \<times> json) list"

text \<open>
  Reading the property \<open>k\<close> of a value that is neither \<^verbatim>\<open>null\<close> nor \<^verbatim>\<open>undefined\<close>, for
  the names the page reads (\<^verbatim>\<open>sig\<close>, \<^verbatim>\<open>graph\<close>, \<^verbatim>\<open>nodes\<close>, \<^verbatim>\<open>links\<close>): none of them is
  a property of an array, a string, a number or a boolean.
\<close>

fun get_prop :: "json \<Rightarrow> jsstring \<Rightarrow> json option" where
  "get_prop (JObj kvs) k = map_of kvs k"
| "get_prop _ k = None"

text \<open>Optional chaining \<^verbatim>\<open>v?.k\<close>.\<close>

fun opt_chain :: "json option \<Rightarrow> jsstring \<Rightarrow> json option" where
  "opt_chain None k = None"
| "opt_chain (Some JNull) k = None"
| "opt_chain (Some v) k = get_prop v k"

text \<open>Truthiness: every array and every object is truthy, the empty array too.\<close>

fun truthy :: "json option \<Rightarrow> bool" where
  "truthy None = False"
| "truthy (Some JNull) = False"
| "truthy (Some (JBool b)) = b"
| "truthy (Some (JNum n)) = (n \<noteq> 0)"
| "truthy (Some (JStr s)) = (s \<noteq> [])"
| "truthy (Some (JArr vs)) = True"
| "truthy (Some (JObj kvs)) = True"

text \<open>
  A thrown value \<open>e\<close>, as far as the page reads it: \<^verbatim>\<open>e?.message\<close>, which is \<open>None\<close> when
  \<open>e\<close> is nullish or has no message.
\<close>

datatype thrown = Thrown (message: "jsstring option")

definition SyntaxError :: thrown where
  "SyntaxError = Thrown (Some (ascii ''Unexpected token''))"

definition TypeError :: thrown where
  "TypeError = Thrown (Some (ascii ''Cannot destructure''))"

text \<open>\<^verbatim>\<open>const { sig, graph } = v\<close> throws a \<^verbatim>\<open>TypeError\<close> on \<^verbatim>\<open>null\<close>.\<close>

definition destructure :: "json \<Rightarrow> thrown + json option \<times> json option" where
  "destructure v =
     (case v of
        JNull \<Rightarrow> Inl TypeError
      | _ \<Rightarrow> Inr (get_prop v (ascii ''sig''), get_prop v (ascii ''graph'')))"

subsection \<open>The storage\<close>

text \<open>
  A string kept in \<^verbatim>\<open>localStorage\<close> is read in two ways only, \<^verbatim>\<open>!raw\<close> and
  \<^verbatim>\<open>JSON.parse(raw)\<close>, so it is represented by what these two see: the empty string, a
  non-empty string that \<^verbatim>\<open>JSON.parse\<close> rejects, or a text of the JSON value \<open>v\<close>.
  \<^verbatim>\<open>JSON.stringify\<close> of plain data writes a text of that value.
\<close>

datatype stored = Empty_string | Not_JSON | JSON_text json

definition JSON_parse :: "stored \<Rightarrow> thrown + json" where
  "JSON_parse raw = (case raw of JSON_text v \<Rightarrow> Inr v | _ \<Rightarrow> Inl SyntaxError)"

definition JSON_stringify :: "json \<Rightarrow> stored" where
  "JSON_stringify v = JSON_text v"

text \<open>
  \<^verbatim>\<open>localStorage\<close>: the items, and how the browser answers. \<open>read_error = Some e\<close> makes
  every \<^verbatim>\<open>getItem\<close> throw \<open>e\<close> (storage unavailable); \<open>write_error k v = Some e\<close> makes
  \<^verbatim>\<open>setItem(k, v)\<close> throw \<open>e\<close> (over quota, private mode) and leave the items as they are.
\<close>

record storage =
  items :: "jsstring \<rightharpoonup> stored"
  read_error :: "thrown option"
  write_error :: "jsstring \<Rightarrow> stored \<Rightarrow> thrown option"

text \<open>
  Modelled from the spec: the shape of \<^verbatim>\<open>Graph\<close>, declared in \<^verbatim>\<open>./lib/citationGraph.ts\<close>,
  which is not among the sources:
  \<^verbatim>\<open>{ nodes: [{id, title, depth}, ...], links: [{source, target}, ...] }\<close>.
\<close>

record node =
  node_id :: jsstring
  node_title :: jsstring
  depth :: nat

record link =
  source :: jsstring
  target :: jsstring

record Graph =
  nodes :: "node list"
  links :: "link list"

definition node_json :: "node \<Rightarrow> json" where
  "node_json n =
     JObj [(ascii ''id'', JStr (node_id n)), (ascii ''title'', JStr (node_title n)),
           (ascii ''depth'', JNum (of_nat (depth n)))]"

definition link_json :: "link \<Rightarrow> json" where
  "link_json l = JObj [(ascii ''source'', JStr (source l)), (ascii ''target'', JStr (target l))]"

text \<open>The graph object as a JavaScript value.\<close>

definition graph_json :: "Graph \<Rightarrow> json" where
  "graph_json g =
     JObj [(ascii ''nodes'', JArr (map node_json (nodes g))),
           (ascii ''links'', JArr (map link_json (links g)))]"

text \<open>
  Modelled from the spec: what it is for a value to have the shape of a \<^verbatim>\<open>Graph\<close>, the
  same declaration read as a test on a value: \<^verbatim>\<open>nodes\<close> is an array of objects with a
  string \<^verbatim>\<open>id\<close>, a string \<^verbatim>\<open>title\<close> and a number \<^verbatim>\<open>depth\<close>, and \<^verbatim>\<open>links\<close> is an array
  of objects with a string \<^verbatim>\<open>source\<close> and a string \<^verbatim>\<open>target\<close>.
\<close>

fun is_string :: "json option \<Rightarrow> bool" where
  "is_string (Some (JStr s)) = True"
| "is_string _ = False"

fun is_number :: "json option \<Rightarrow> bool" where
  "is_number (Some (JNum n)) = True"
| "is_number _ = False"

definition node_shaped :: "json \<Rightarrow> bool" where
  "node_shaped v =
     (is_string (get_prop v (ascii ''id'')) \<and> is_string (get_prop v (ascii ''title''))
      \<and> is_number (get_prop v (ascii ''depth'')))"

definition link_shaped :: "json \<Rightarrow> bool" where
  "link_shaped v =
     (is_string (get_prop v (ascii ''source'')) \<and> is_string (get_prop v (ascii ''target'')))"

definition graph_shaped :: "json \<Rightarrow> bool" where
  "graph_shaped v =
     (case (get_prop v (ascii ''nodes''), get_prop v (ascii ''links'')) of
        (Some (JArr ns), Some (JArr ls)) \<Rightarrow> list_all node_shaped ns \<and> list_all link_shaped ls
      | _ \<Rightarrow> False)"

subsection \<open>The page: its state and the calls it makes\<close>

text \<open>The argument object of \<^verbatim>\<open>buildCitationGraph\<close> (lines 128-135).\<close>

record crawl_args =
  arg_seedDois :: "jsstring list"
  arg_titlesByDoi :: "jsstring \<rightharpoonup> jsstring"
  maxDepth :: nat
  maxRefsPerNode :: nat
  delayMs :: nat

text \<open>The calls that leave the page, in the order they are made.\<close>

datatype event =
    GetItem jsstring
  | SetItem jsstring stored
  | BuildCitationGraph crawl_args

text \<open>The calls to the crawler among the calls made: the only source of fetches.\<close>

fun is_crawl :: "event \<Rightarrow> bool" where
  "is_crawl (BuildCitationGraph a) = True"
| "is_crawl (GetItem k) = False"
| "is_crawl (SetItem k v) = False"

text \<open>
  How a call ends: it returns (a promise is fulfilled), it throws (a promise is
  rejected), or the promise awaited never settles.
\<close>

datatype 'a outcome = Returns 'a | Throws thrown | Hangs

text \<open>
  \<^verbatim>\<open>buildCitationGraph\<close> (\<^verbatim>\<open>./lib/citationGraph.ts\<close>) is not among the sources: it is a
  parameter, any function from the argument object to the way the awaited call ends.
  It leaves the page's state and the cache entry alone.
\<close>

type_synonym crawler = "crawl_args \<Rightarrow> Graph outcome"

text \<open>
  The React state of the page (\<^verbatim>\<open>graph\<close>, \<^verbatim>\<open>loadingGraph\<close>, \<^verbatim>\<open>graphErr\<close>; \<open>None\<close> is
  \<^verbatim>\<open>null\<close>), the storage, and the calls made so far.
\<close>

record world =
  localStorage :: storage
  graph :: "json option"
  loadingGraph :: bool
  graphErr :: "jsstring option"
  calls :: "event list"

definition crawls :: "world \<Rightarrow> nat" where
  "crawls w = length (filter is_crawl (calls w))"

definition CACHE_KEY :: jsstring where
  "CACHE_KEY = ascii ''citationGraph:v2''"

definition getItem :: "jsstring \<Rightarrow> world \<Rightarrow> (thrown + stored option) \<times> world" where
  "getItem k w =
     (case read_error (localStorage w) of
        Some e \<Rightarrow> Inl e
      | None \<Rightarrow> Inr (items (localStorage w) k),
      w\<lparr>calls := calls w @ [GetItem k]\<rparr>)"

definition setItem :: "jsstring \<Rightarrow> stored \<Rightarrow> world \<Rightarrow> (thrown + unit) \<times> world" where
  "setItem k v w =
     (case write_error (localStorage w) k v of
        Some e \<Rightarrow> (Inl e, w\<lparr>calls := calls w @ [SetItem k v]\<rparr>)
      | None \<Rightarrow>
          (Inr (),
           w\<lparr>localStorage := (localStorage w)\<lparr>items := (items (localStorage w))(k \<mapsto> v)\<rparr>,
             calls := calls w @ [SetItem k v]\<rparr>))"

subsection \<open>tryLoadCache (lines 89-99)\<close>

text \<open>
  The \<^verbatim>\<open>try\<close> block after \<^verbatim>\<open>getItem\<close>, for the value \<open>raw\<close> it read; \<open>csig\<close> is the
  \<^verbatim>\<open>cacheSig\<close> of the render. \<open>Inr None\<close> is \<^verbatim>\<open>return null\<close>.
\<close>

definition check_entry :: "jsstring \<Rightarrow> stored option \<Rightarrow> thrown + json option" where
  "check_entry csig raw =
     (case raw of
        None \<Rightarrow> Inr None
      | Some Empty_string \<Rightarrow> Inr None
      | Some t \<Rightarrow>
          (case JSON_parse t of
             Inl e \<Rightarrow> Inl e
           | Inr v \<Rightarrow>
               (case destructure v of
                  Inl e \<Rightarrow> Inl e
                | Inr (sig', graph') \<Rightarrow>
                    if sig' = Some (JStr csig) \<and> truthy (opt_chain graph' (ascii ''nodes''))
                       \<and> truthy (opt_chain graph' (ascii ''links''))
                    then Inr graph'
                    else Inr None)))"

definition tryLoadCache_try :: "jsstring \<Rightarrow> world \<Rightarrow> (thrown + json option) \<times> world" where
  "tryLoadCache_try csig w =
     (case getItem CACHE_KEY w of
        (Inl e, w') \<Rightarrow> (Inl e, w')
      | (Inr raw, w') \<Rightarrow> (check_entry csig raw, w'))"

text \<open>The \<^verbatim>\<open>catch\<close> turns whatever was thrown into \<^verbatim>\<open>null\<close>.\<close>

definition tryLoadCache :: "jsstring \<Rightarrow> world \<Rightarrow> json option \<times> world" where
  "tryLoadCache csig w =
     (case tryLoadCache_try csig w of
        (Inl e, w') \<Rightarrow> (None, w')
      | (Inr r, w') \<Rightarrow> (r, w'))"

subsection \<open>saveCache (lines 101-107)\<close>

definition cache_payload :: "jsstring \<Rightarrow> Graph \<Rightarrow> json" where
  "cache_payload csig g = JObj [(ascii ''sig'', JStr csig), (ascii ''graph'', graph_json g)]"

definition saveCache :: "jsstring \<Rightarrow> Graph \<Rightarrow> world \<Rightarrow> world" where
  "saveCache csig g w =
     (case setItem CACHE_KEY (JSON_stringify (cache_payload csig g)) w of
        (Inl e, w') \<Rightarrow> w'
      | (Inr u, w') \<Rightarrow> w')"

subsection \<open>buildOrLoad (lines 110-144)\<close>

definition build_args :: "paper list \<Rightarrow> crawl_args" where
  "build_args papers =
     \<lparr>arg_seedDois = seedDois papers, arg_titlesByDoi = titlesByDoi papers,
      maxDepth = 3, maxRefsPerNode = 30, delayMs = 140\<rparr>"

text \<open>\<^verbatim>\<open>e?.message || "Failed to build citation network"\<close>\<close>

definition error_message :: "thrown \<Rightarrow> jsstring" where
  "error_message e =
     (case message e of
        None \<Rightarrow> ascii ''Failed to build citation network''
      | Some m \<Rightarrow> if truthy_str (Some m) then m else ascii ''Failed to build citation network'')"

text \<open>
  The \<^verbatim>\<open>try\<close> block (lines 117-138); \<open>papers\<close> is the state the render closed over.
\<close>

definition buildOrLoad_try :: "crawler \<Rightarrow> paper list \<Rightarrow> bool \<Rightarrow> world \<Rightarrow> unit outcome \<times> world" where
  "buildOrLoad_try crawler papers force w =
     (let w1 = w\<lparr>loadingGraph := True, graphErr := None\<rparr>;
          (cached, w2) =
            (if \<not> force then tryLoadCache (cacheSig (seedDois papers)) w1 else (None, w1))
      in if \<not> force \<and> truthy cached then (Returns (), w2\<lparr>graph := cached\<rparr>)
         else
           (let w3 = w2\<lparr>calls := calls w2 @ [BuildCitationGraph (build_args papers)]\<rparr>
            in case crawler (build_args papers) of
                 Returns g \<Rightarrow>
                   (Returns (),
                    saveCache (cacheSig (seedDois papers)) g (w3\<lparr>graph := Some (graph_json g)\<rparr>))
               | Throws e \<Rightarrow> (Throws e, w3)
               | Hangs \<Rightarrow> (Hangs, w3)))"

text \<open>
  The whole function: the guard on an empty seed list, then the \<^verbatim>\<open>try\<close> block with its
  \<^verbatim>\<open>catch\<close> and \<^verbatim>\<open>finally\<close>. The result says how the promise of \<^verbatim>\<open>buildOrLoad\<close> ends.
\<close>

definition buildOrLoad :: "crawler \<Rightarrow> paper list \<Rightarrow> bool \<Rightarrow> world \<Rightarrow> unit outcome \<times> world" where
  "buildOrLoad crawler papers force w =
     (if length (seedDois papers) = 0 then (Returns (), w\<lparr>graph := None, graphErr := None\<rparr>)
      else
        (case buildOrLoad_try crawler papers force w of
           (Returns u, w') \<Rightarrow> (Returns (), w'\<lparr>loadingGraph := False\<rparr>)
         | (Throws e, w') \<Rightarrow>
             (Returns (), w'\<lparr>graphErr := Some (error_message e), loadingGraph := False\<rparr>)
         | (Hangs, w') \<Rightarrow> (Hangs, w')))"

text \<open>
  The effect \<^verbatim>\<open>useEffect(() => { buildOrLoad(false) }, [cacheSig])\<close> (lines 146-149): it
  runs after the first render (\<open>prev = None\<close>) and after a render whose \<^verbatim>\<open>cacheSig\<close> is
  not the previous render's. \<open>None\<close> is the effect not run.
\<close>

definition useEffect_cacheSig ::
    "crawler \<Rightarrow> jsstring option \<Rightarrow> paper list \<Rightarrow> world \<Rightarrow> (unit outcome \<times> world) option" where
  "useEffect_cacheSig crawler prev papers w =
     (if prev = Some (cacheSig (seedDois papers)) then None
      else Some (buildOrLoad crawler papers False w))"

subsection \<open>Example values\<close>

text \<open>Papers, graphs, crawlers and storages that the properties below are run on.\<close>

definition paper_with_doi :: "string \<Rightarrow> paper" where
  "paper_with_doi d = \<lparr>doi = Some (ascii d), title = None\<rparr>"

definition graph_lonely :: "string \<Rightarrow> Graph" where
  "graph_lonely d =
     \<lparr>nodes = [\<lparr>node_id = ascii d, node_title = [], depth = 0\<rparr>], links = []\<rparr>"

definition crawler_returning :: "Graph \<Rightarrow> crawler" where
  "crawler_returning g a = Returns g"

definition crawler_throwing :: "thrown \<Rightarrow> crawler" where
  "crawler_throwing e a = Throws e"

definition crawler_hanging :: crawler where
  "crawler_hanging a = Hangs"

definition QuotaExceededError :: thrown where
  "QuotaExceededError = Thrown (Some (ascii ''QuotaExceededError''))"

definition SecurityError :: thrown where
  "SecurityError = Thrown (Some (ascii ''SecurityError''))"

definition storage_holding :: "stored option \<Rightarrow> storage" where
  "storage_holding raw =
     \<lparr>items = (\<lambda>k. if k = CACHE_KEY then raw else None), read_error = None,
      write_error = (\<lambda>k v. None)\<rparr>"

definition storage_full :: "stored option \<Rightarrow> storage" where
  "storage_full raw =
     \<lparr>items = (\<lambda>k. if k = CACHE_KEY then raw else None), read_error = None,
      write_error = (\<lambda>k v. Some QuotaExceededError)\<rparr>"

definition storage_unavailable :: storage where
  "storage_unavailable =
     \<lparr>items = (\<lambda>k. None), read_error = Some SecurityError,
      write_error = (\<lambda>k v. Some SecurityError)\<rparr>"

definition page_on :: "storage \<Rightarrow> world" where
  "page_on st =
     \<lparr>localStorage = st, graph = None, loadingGraph = False, graphErr = None, calls = []\<rparr>"

section \<open>Properties\<close>

text \<open>The defining equations that evaluate the model on the example values.\<close>

lemmas seed_defs = cacheSig_def seedDois_def titlesByDoi_def push_doi_def put_title_def obj_set_def
  Array_from_new_Set_def Set_add_def trim_def is_white_def paper_with_doi_def ascii_def

lemmas eval_defs = tryLoadCache_def tryLoadCache_try_def check_entry_def
  getItem_def setItem_def saveCache_def cache_payload_def JSON_parse_def JSON_stringify_def
  destructure_def graph_json_def node_json_def link_json_def CACHE_KEY_def ascii_def
  storage_holding_def storage_full_def storage_unavailable_def page_on_def graph_lonely_def
  SecurityError_def SyntaxError_def TypeError_def QuotaExceededError_def

subsection \<open>The signature\<close>

lemma set_foldl_Set_add: "set (foldl Set_add acc xs) = set acc \<union> set xs"
  by (induction xs arbitrary: acc) (auto simp: Set_add_def)

lemma distinct_foldl_Set_add: "distinct acc \<Longrightarrow> distinct (foldl Set_add acc xs)"
  by (induction xs arbitrary: acc) (auto simp: Set_add_def)

lemma set_Array_from_new_Set: "set (Array_from_new_Set xs) = set xs"
  by (simp add: Array_from_new_Set_def set_foldl_Set_add)

lemma distinct_Array_from_new_Set: "distinct (Array_from_new_Set xs)"
  by (simp add: Array_from_new_Set_def distinct_foldl_Set_add)

lemma sort_Array_from_new_Set:
  fixes xs ys :: "'a::linorder list"
  assumes "set xs = set ys"
  shows "sort (Array_from_new_Set xs) = sort (Array_from_new_Set ys)"
proof (rule sorted_distinct_set_unique)
  show "sorted (sort (Array_from_new_Set xs))" and "sorted (sort (Array_from_new_Set ys))"
    by simp_all
  show "distinct (sort (Array_from_new_Set xs))" and "distinct (sort (Array_from_new_Set ys))"
    by (simp_all add: distinct_Array_from_new_Set)
  show "set (sort (Array_from_new_Set xs)) = set (sort (Array_from_new_Set ys))"
    using assms by (simp add: set_Array_from_new_Set)
qed

text \<open>
  C1. Two lists of seed identifiers with the same elements, in any order and with any
  repetition, get the same signature: the signature is computed from the list without
  repetitions (\<^verbatim>\<open>Array.from(new Set(dois))\<close>), sorted and joined with \<^verbatim>\<open>"|"\<close>.
\<close>

theorem cacheSig_set_equal:
  "set S1 = set S2 \<Longrightarrow> cacheSig (Array_from_new_Set S1) = cacheSig (Array_from_new_Set S2)"
  unfolding cacheSig_def using sort_Array_from_new_Set [of S1 S2] by simp

theorem cacheSig_set_equal_witness:
  "set [ascii ''B'', ascii ''A'', ascii ''B''] = set [ascii ''A'', ascii ''B'']
   \<and> cacheSig (Array_from_new_Set [ascii ''B'', ascii ''A'', ascii ''B'']) = ascii ''A|B''
   \<and> cacheSig (Array_from_new_Set [ascii ''A'', ascii ''B'']) = ascii ''A|B''"
proof -
  have s: "set [ascii ''B'', ascii ''A'', ascii ''B''] = set [ascii ''A'', ascii ''B'']"
    by auto
  have r: "cacheSig (Array_from_new_Set [ascii ''A'', ascii ''B'']) = ascii ''A|B''"
    by (simp add: cacheSig_def Array_from_new_Set_def Set_add_def ascii_def)
  have e: "cacheSig (Array_from_new_Set [ascii ''B'', ascii ''A'', ascii ''B''])
      = cacheSig (Array_from_new_Set [ascii ''A'', ascii ''B''])"
    by (rule cacheSig_set_equal [OF s])
  from e r have l: "cacheSig (Array_from_new_Set [ascii ''B'', ascii ''A'', ascii ''B'']) = ascii ''A|B''"
    by (rule trans)
  from s l r show ?thesis by blast
qed

text \<open>
  The same on the page: the signature depends on the set of papers only, not on their
  order or on repetitions.
\<close>

lemma set_push_doi:
  "set (push_doi p dois) =
     set dois \<union> (case doi p of None \<Rightarrow> {} | Some d \<Rightarrow> if trim d = [] then {} else {trim d})"
  by (auto simp: push_doi_def trim_def split: option.splits)

lemma set_collect_dois:
  "set (fst (collect ps (dois, titles))) =
     set dois \<union> (\<Union>p\<in>set ps. case doi p of None \<Rightarrow> {} | Some d \<Rightarrow> if trim d = [] then {} else {trim d})"
  by (induction ps arbitrary: dois titles) (auto simp: set_push_doi split: option.splits if_splits)

lemma cacheSig_seedDois_papers:
  assumes "set ps1 = set ps2"
  shows "cacheSig (seedDois ps1) = cacheSig (seedDois ps2)"
proof -
  from assms have "set (fst (collect ps1 ([], Map.empty))) = set (fst (collect ps2 ([], Map.empty)))"
    by (simp add: set_collect_dois)
  from sort_Array_from_new_Set [OF this] show ?thesis
    by (simp add: cacheSig_def seedDois_def)
qed

subsection \<open>Reading the cache\<close>

lemma tryLoadCache_world:
  "snd (tryLoadCache csig w) = w\<lparr>calls := calls w @ [GetItem CACHE_KEY]\<rparr>"
  by (simp add: tryLoadCache_def tryLoadCache_try_def getItem_def split: option.splits sum.splits)

lemma tryLoadCache_try_thrown:
  "fst (tryLoadCache_try csig w) = Inl e \<Longrightarrow> fst (tryLoadCache csig w) = None"
  by (cases "tryLoadCache_try csig w") (auto simp: tryLoadCache_def)

lemma tryLoadCache_value:
  "fst (tryLoadCache csig w) =
     (case read_error (localStorage w) of
        Some e \<Rightarrow> None
      | None \<Rightarrow>
          (case check_entry csig (items (localStorage w) CACHE_KEY) of
             Inl e \<Rightarrow> None
           | Inr r \<Rightarrow> r))"
  by (simp add: tryLoadCache_def tryLoadCache_try_def getItem_def split: option.splits sum.splits)

lemma check_entry_Some:
  assumes "check_entry csig raw = Inr (Some g)"
  shows "\<exists>payload. raw = Some (JSON_text payload)
           \<and> get_prop payload (ascii ''sig'') = Some (JStr csig)
           \<and> get_prop payload (ascii ''graph'') = Some g
           \<and> truthy (get_prop g (ascii ''nodes''))
           \<and> truthy (get_prop g (ascii ''links''))"
proof (cases raw)
  case None
  with assms show ?thesis by (simp add: check_entry_def)
next
  case (Some t)
  show ?thesis
  proof (cases t)
    case (JSON_text v)
    with assms Some show ?thesis
      by (cases v; cases g)
        (auto simp: check_entry_def JSON_parse_def destructure_def split: if_splits)
  qed (use assms Some in \<open>simp_all add: check_entry_def JSON_parse_def\<close>)
qed

lemma graph_shaped_graph_json: "graph_shaped (graph_json g)"
proof -
  have n: "list_all node_shaped (map node_json ns)" for ns
    by (induction ns) (simp_all add: node_shaped_def node_json_def ascii_def)
  have l: "list_all link_shaped (map link_json ls)" for ls
    by (induction ls) (simp_all add: link_shaped_def link_json_def ascii_def)
  show ?thesis
    by (simp add: graph_shaped_def graph_json_def n l) (simp add: ascii_def)
qed

text \<open>
  The values made from a \<^verbatim>\<open>Graph\<close> have its shape; the check in \<^verbatim>\<open>tryLoadCache\<close> does
  not ask for it. An entry with a matching signature whose \<^verbatim>\<open>nodes\<close> is the string
  \<^verbatim>\<open>"x"\<close> and whose \<^verbatim>\<open>links\<close> is \<^verbatim>\<open>true\<close> is returned, cast to \<^verbatim>\<open>Graph\<close>.
\<close>

theorem tryLoadCache_wrong_shape_counterexample:
  "fst (tryLoadCache (ascii ''A'')
          (page_on (storage_holding (Some (JSON_text
             (JObj [(ascii ''sig'', JStr (ascii ''A'')),
                    (ascii ''graph'',
                     JObj [(ascii ''nodes'', JStr (ascii ''x'')),
                           (ascii ''links'', JBool True)])]))))))
     = Some (JObj [(ascii ''nodes'', JStr (ascii ''x'')), (ascii ''links'', JBool True)])
   \<and> \<not> graph_shaped (JObj [(ascii ''nodes'', JStr (ascii ''x'')), (ascii ''links'', JBool True)])"
  by (simp add: eval_defs graph_shaped_def)

text \<open>
  C2. \<^verbatim>\<open>tryLoadCache\<close> returns a graph only when the storage could be read, the entry
  under \<^verbatim>\<open>CACHE_KEY\<close> is JSON whose \<^verbatim>\<open>sig\<close> is exactly the current signature, and the
  \<^verbatim>\<open>nodes\<close> and \<^verbatim>\<open>links\<close> of its \<^verbatim>\<open>graph\<close> are both truthy; the graph returned is the
  stored one. That is the whole test: on a readable storage holding JSON, the result is
  the stored \<^verbatim>\<open>graph\<close> exactly when the three conditions hold, and \<^verbatim>\<open>null\<close> otherwise,
  whatever the types of \<^verbatim>\<open>nodes\<close> and \<^verbatim>\<open>links\<close>. A storage that cannot be read, a missing
  or empty entry, text that is not JSON and a \<^verbatim>\<open>null\<close> payload all give \<^verbatim>\<open>null\<close>, and
  whatever the \<^verbatim>\<open>try\<close> block throws is caught and becomes \<^verbatim>\<open>null\<close>.
\<close>

theorem tryLoadCache_only_valid_match:
  "(fst (tryLoadCache csig w) = Some g \<longrightarrow>
      read_error (localStorage w) = None
      \<and> (\<exists>payload. items (localStorage w) CACHE_KEY = Some (JSON_text payload)
            \<and> get_prop payload (ascii ''sig'') = Some (JStr csig)
            \<and> get_prop payload (ascii ''graph'') = Some g
            \<and> truthy (get_prop g (ascii ''nodes''))
            \<and> truthy (get_prop g (ascii ''links''))))
   \<and> (read_error (localStorage w) = None
        \<and> items (localStorage w) CACHE_KEY = Some (JSON_text stored_payload) \<longrightarrow>
        fst (tryLoadCache csig w) =
          (if get_prop stored_payload (ascii ''sig'') = Some (JStr csig)
              \<and> truthy (opt_chain (get_prop stored_payload (ascii ''graph'')) (ascii ''nodes''))
              \<and> truthy (opt_chain (get_prop stored_payload (ascii ''graph'')) (ascii ''links''))
           then get_prop stored_payload (ascii ''graph'')
           else None))
   \<and> (read_error (localStorage w) = Some e \<longrightarrow> fst (tryLoadCache csig w) = None)
   \<and> (items (localStorage w) CACHE_KEY = None \<longrightarrow> fst (tryLoadCache csig w) = None)
   \<and> (items (localStorage w) CACHE_KEY = Some Empty_string \<longrightarrow> fst (tryLoadCache csig w) = None)
   \<and> (items (localStorage w) CACHE_KEY = Some Not_JSON \<longrightarrow> fst (tryLoadCache csig w) = None)
   \<and> (items (localStorage w) CACHE_KEY = Some (JSON_text JNull) \<longrightarrow>
        fst (tryLoadCache csig w) = None)
   \<and> (fst (tryLoadCache_try csig w) = Inl e' \<longrightarrow> fst (tryLoadCache csig w) = None)"
proof -
  have hit: "fst (tryLoadCache csig w) = Some g \<longrightarrow>
      read_error (localStorage w) = None
      \<and> (\<exists>payload. items (localStorage w) CACHE_KEY = Some (JSON_text payload)
            \<and> get_prop payload (ascii ''sig'') = Some (JStr csig)
            \<and> get_prop payload (ascii ''graph'') = Some g
            \<and> truthy (get_prop g (ascii ''nodes''))
            \<and> truthy (get_prop g (ascii ''links'')))"
  proof
    assume a: "fst (tryLoadCache csig w) = Some g"
    then have r: "read_error (localStorage w) = None"
      by (simp add: tryLoadCache_value split: option.splits)
    with a have "check_entry csig (items (localStorage w) CACHE_KEY) = Inr (Some g)"
      by (simp add: tryLoadCache_value split: sum.splits)
    from check_entry_Some [OF this] r
    show "read_error (localStorage w) = None
      \<and> (\<exists>payload. items (localStorage w) CACHE_KEY = Some (JSON_text payload)
            \<and> get_prop payload (ascii ''sig'') = Some (JStr csig)
            \<and> get_prop payload (ascii ''graph'') = Some g
            \<and> truthy (get_prop g (ascii ''nodes''))
            \<and> truthy (get_prop g (ascii ''links'')))"
      by simp
  qed
  have exact: "read_error (localStorage w) = None
        \<and> items (localStorage w) CACHE_KEY = Some (JSON_text stored_payload) \<longrightarrow>
        fst (tryLoadCache csig w) =
          (if get_prop stored_payload (ascii ''sig'') = Some (JStr csig)
              \<and> truthy (opt_chain (get_prop stored_payload (ascii ''graph'')) (ascii ''nodes''))
              \<and> truthy (opt_chain (get_prop stored_payload (ascii ''graph'')) (ascii ''links''))
           then get_prop stored_payload (ascii ''graph'')
           else None)"
    by (cases stored_payload)
       (simp_all add: tryLoadCache_value check_entry_def JSON_parse_def destructure_def)
  have unreadable: "read_error (localStorage w) = Some e \<longrightarrow> fst (tryLoadCache csig w) = None"
    by (simp add: tryLoadCache_value)
  have missing: "items (localStorage w) CACHE_KEY = None \<longrightarrow> fst (tryLoadCache csig w) = None"
    by (simp add: tryLoadCache_value check_entry_def split: option.splits)
  have empty: "items (localStorage w) CACHE_KEY = Some Empty_string \<longrightarrow> fst (tryLoadCache csig w) = None"
    by (simp add: tryLoadCache_value check_entry_def split: option.splits)
  have malformed: "items (localStorage w) CACHE_KEY = Some Not_JSON \<longrightarrow> fst (tryLoadCache csig w) = None"
    by (simp add: tryLoadCache_value check_entry_def JSON_parse_def split: option.splits)
  have null: "items (localStorage w) CACHE_KEY = Some (JSON_text JNull) \<longrightarrow>
        fst (tryLoadCache csig w) = None"
    by (simp add: tryLoadCache_value check_entry_def JSON_parse_def destructure_def split: option.splits)
  have caught: "fst (tryLoadCache_try csig w) = Inl e' \<longrightarrow> fst (tryLoadCache csig w) = None"
    by (simp add: tryLoadCache_try_thrown)
  from hit exact unreadable missing empty malformed null caught show ?thesis by blast
qed

theorem tryLoadCache_only_valid_match_witness:
  "fst (tryLoadCache (ascii ''A'')
          (page_on (storage_holding (Some (JSON_text (cache_payload (ascii ''A'') (graph_lonely ''A'')))))))
     = Some (graph_json (graph_lonely ''A''))
   \<and> truthy (get_prop (graph_json (graph_lonely ''A'')) (ascii ''nodes''))
   \<and> truthy (get_prop (graph_json (graph_lonely ''A'')) (ascii ''links''))
   \<and> fst (tryLoadCache (ascii ''B'')
          (page_on (storage_holding (Some (JSON_text (cache_payload (ascii ''A'') (graph_lonely ''A'')))))))
     = None
   \<and> read_error (localStorage (page_on storage_unavailable)) = Some SecurityError
   \<and> fst (tryLoadCache (ascii ''A'') (page_on storage_unavailable)) = None
   \<and> fst (tryLoadCache (ascii ''A'') (page_on (storage_holding None))) = None
   \<and> fst (tryLoadCache (ascii ''A'') (page_on (storage_holding (Some Empty_string)))) = None
   \<and> fst (tryLoadCache (ascii ''A'') (page_on (storage_holding (Some Not_JSON)))) = None
   \<and> fst (tryLoadCache_try (ascii ''A'') (page_on (storage_holding (Some Not_JSON)))) = Inl SyntaxError
   \<and> fst (tryLoadCache (ascii ''A'') (page_on (storage_holding (Some (JSON_text JNull))))) = None"
proof -
  let ?p = "cache_payload (ascii ''A'') (graph_lonely ''A'')"
  let ?hit = "page_on (storage_holding (Some (JSON_text ?p)))"
  have r: "\<And>raw. read_error (localStorage (page_on (storage_holding raw))) = None"
    by (simp add: page_on_def storage_holding_def)
  have i: "\<And>raw. items (localStorage (page_on (storage_holding raw))) CACHE_KEY = raw"
    by (simp add: page_on_def storage_holding_def)
  have u: "read_error (localStorage (page_on storage_unavailable)) = Some SecurityError"
    by (simp add: page_on_def storage_unavailable_def)
  have t: "fst (tryLoadCache_try (ascii ''A'') (page_on (storage_holding (Some Not_JSON)))) = Inl SyntaxError"
    by (simp add: eval_defs)
  have ps: "get_prop ?p (ascii ''sig'') = Some (JStr (ascii ''A''))"
    and pg: "get_prop ?p (ascii ''graph'') = Some (graph_json (graph_lonely ''A''))"
    by (simp_all add: cache_payload_def ascii_def)
  have tn: "truthy (opt_chain (Some (graph_json (graph_lonely ''A''))) (ascii ''nodes''))"
    and tl: "truthy (opt_chain (Some (graph_json (graph_lonely ''A''))) (ascii ''links''))"
    by (simp_all add: graph_json_def ascii_def)
  have ne: "Some (JStr (ascii ''A'')) \<noteq> Some (JStr (ascii ''B''))"
    by (simp add: ascii_def)
  from tryLoadCache_only_valid_match [of "ascii ''A''" ?hit _ ?p] r i
  have "fst (tryLoadCache (ascii ''A'') ?hit) =
          (if get_prop ?p (ascii ''sig'') = Some (JStr (ascii ''A''))
              \<and> truthy (opt_chain (get_prop ?p (ascii ''graph'')) (ascii ''nodes''))
              \<and> truthy (opt_chain (get_prop ?p (ascii ''graph'')) (ascii ''links''))
           then get_prop ?p (ascii ''graph'') else None)"
    by blast
  with ps pg tn tl have h: "fst (tryLoadCache (ascii ''A'') ?hit) = Some (graph_json (graph_lonely ''A''))"
    by simp
  from tryLoadCache_only_valid_match [of "ascii ''B''" ?hit _ ?p] r i
  have "fst (tryLoadCache (ascii ''B'') ?hit) =
          (if get_prop ?p (ascii ''sig'') = Some (JStr (ascii ''B''))
              \<and> truthy (opt_chain (get_prop ?p (ascii ''graph'')) (ascii ''nodes''))
              \<and> truthy (opt_chain (get_prop ?p (ascii ''graph'')) (ascii ''links''))
           then get_prop ?p (ascii ''graph'') else None)"
    by blast
  with ps ne have o: "fst (tryLoadCache (ascii ''B'') ?hit) = None"
    by simp
  from tryLoadCache_only_valid_match [of "ascii ''A''" ?hit "graph_json (graph_lonely ''A'')"] h
  have 1: "truthy (get_prop (graph_json (graph_lonely ''A'')) (ascii ''nodes''))
     \<and> truthy (get_prop (graph_json (graph_lonely ''A'')) (ascii ''links''))"
    by blast
  from tryLoadCache_only_valid_match [of "ascii ''A''" "page_on storage_unavailable" _ _ SecurityError] u
  have 2: "fst (tryLoadCache (ascii ''A'') (page_on storage_unavailable)) = None"
    by blast
  from tryLoadCache_only_valid_match [of "ascii ''A''" "page_on (storage_holding None)"] i
  have 3: "fst (tryLoadCache (ascii ''A'') (page_on (storage_holding None))) = None"
    by blast
  from tryLoadCache_only_valid_match [of "ascii ''A''" "page_on (storage_holding (Some Empty_string))"] i
  have 4: "fst (tryLoadCache (ascii ''A'') (page_on (storage_holding (Some Empty_string)))) = None"
    by blast
  from tryLoadCache_only_valid_match
         [of "ascii ''A''" "page_on (storage_holding (Some Not_JSON))" _ _ _ SyntaxError] i t
  have 5: "fst (tryLoadCache (ascii ''A'') (page_on (storage_holding (Some Not_JSON)))) = None"
    by blast
  from tryLoadCache_only_valid_match [of "ascii ''A''" "page_on (storage_holding (Some (JSON_text JNull)))"] i
  have 6: "fst (tryLoadCache (ascii ''A'') (page_on (storage_holding (Some (JSON_text JNull))))) = None"
    by blast
  from h 1 o u 2 3 4 5 t 6 show ?thesis by blast
qed

text \<open>
  The check \<^verbatim>\<open>graph?.nodes && graph?.links\<close> asks whether the two properties are truthy,
  and an empty array is truthy: an entry with a matching signature whose \<^verbatim>\<open>nodes\<close> and
  \<^verbatim>\<open>links\<close> are both empty arrays is returned.
\<close>

theorem tryLoadCache_empty_containers_counterexample:
  "fst (tryLoadCache (ascii ''A'')
          (page_on (storage_holding
             (Some (JSON_text (cache_payload (ascii ''A'') \<lparr>nodes = [], links = []\<rparr>))))))
     = Some (graph_json \<lparr>nodes = [], links = []\<rparr>)
   \<and> graph_json \<lparr>nodes = [], links = []\<rparr>
       = JObj [(ascii ''nodes'', JArr []), (ascii ''links'', JArr [])]"
  by (simp add: eval_defs)

text \<open>
  C3. An entry with a matching signature is ignored exactly when \<^verbatim>\<open>graph\<close> is missing or
  \<^verbatim>\<open>null\<close>, or its \<^verbatim>\<open>nodes\<close> or \<^verbatim>\<open>links\<close> property is missing or falsy
  (\<^verbatim>\<open>null\<close>, \<^verbatim>\<open>false\<close>, \<^verbatim>\<open>0\<close>, \<^verbatim>\<open>""\<close>). Arrays pass the check whatever their length:
  a matching entry whose \<^verbatim>\<open>nodes\<close> and \<^verbatim>\<open>links\<close> are arrays is returned, empty or not.
\<close>

theorem tryLoadCache_presence_check:
  assumes "read_error (localStorage w) = None"
      and "items (localStorage w) CACHE_KEY = Some (JSON_text payload)"
      and "get_prop payload (ascii ''sig'') = Some (JStr csig)"
  shows "(fst (tryLoadCache csig w) = None) =
           (\<not> (truthy (opt_chain (get_prop payload (ascii ''graph'')) (ascii ''nodes''))
               \<and> truthy (opt_chain (get_prop payload (ascii ''graph'')) (ascii ''links''))))
         \<and> (get_prop payload (ascii ''graph'')
               = Some (JObj [(ascii ''nodes'', JArr ns), (ascii ''links'', JArr ls)])
             \<longrightarrow> fst (tryLoadCache csig w)
                   = Some (JObj [(ascii ''nodes'', JArr ns), (ascii ''links'', JArr ls)]))"
proof -
  obtain kvs where p: "payload = JObj kvs"
    using assms(3) by (cases payload) auto
  have v: "fst (tryLoadCache csig w) =
      (if truthy (opt_chain (get_prop payload (ascii ''graph'')) (ascii ''nodes''))
          \<and> truthy (opt_chain (get_prop payload (ascii ''graph'')) (ascii ''links''))
       then get_prop payload (ascii ''graph'') else None)"
    using assms p by (simp add: tryLoadCache_value check_entry_def JSON_parse_def destructure_def)
  have t: "truthy (opt_chain (get_prop payload (ascii ''graph'')) (ascii ''nodes''))
       \<Longrightarrow> get_prop payload (ascii ''graph'') \<noteq> None"
    by (cases "get_prop payload (ascii ''graph'')") auto
  have a: "get_prop payload (ascii ''graph'')
               = Some (JObj [(ascii ''nodes'', JArr ns), (ascii ''links'', JArr ls)])
     \<Longrightarrow> truthy (opt_chain (get_prop payload (ascii ''graph'')) (ascii ''nodes''))
         \<and> truthy (opt_chain (get_prop payload (ascii ''graph'')) (ascii ''links''))"
    by (simp add: ascii_def)
  from v t a show ?thesis by auto
qed

theorem tryLoadCache_presence_check_witness:
  "fst (tryLoadCache (ascii ''A'')
          (page_on (storage_holding (Some (JSON_text
             (JObj [(ascii ''sig'', JStr (ascii ''A'')),
                    (ascii ''graph'', JObj [(ascii ''nodes'', JArr []), (ascii ''links'', JNum 0)])]))))))
     = None
   \<and> fst (tryLoadCache (ascii ''A'')
          (page_on (storage_holding (Some (JSON_text
             (JObj [(ascii ''sig'', JStr (ascii ''A'')),
                    (ascii ''graph'', JObj [(ascii ''nodes'', JArr []), (ascii ''links'', JArr [])])]))))))
     = Some (JObj [(ascii ''nodes'', JArr []), (ascii ''links'', JArr [])])"
proof -
  let ?bad = "JObj [(ascii ''sig'', JStr (ascii ''A'')),
                    (ascii ''graph'', JObj [(ascii ''nodes'', JArr []), (ascii ''links'', JNum 0)])]"
  let ?good = "JObj [(ascii ''sig'', JStr (ascii ''A'')),
                    (ascii ''graph'', JObj [(ascii ''nodes'', JArr []), (ascii ''links'', JArr [])])]"
  have r: "\<And>raw. read_error (localStorage (page_on (storage_holding raw))) = None"
    by (simp add: page_on_def storage_holding_def)
  have i: "\<And>raw. items (localStorage (page_on (storage_holding raw))) CACHE_KEY = raw"
    by (simp add: page_on_def storage_holding_def)
  have sb: "get_prop ?bad (ascii ''sig'') = Some (JStr (ascii ''A''))"
    by (simp add: ascii_def)
  have sg: "get_prop ?good (ascii ''sig'') = Some (JStr (ascii ''A''))"
    by (simp add: ascii_def)
  have gb: "\<not> truthy (opt_chain (get_prop ?bad (ascii ''graph'')) (ascii ''links''))"
    by (simp add: ascii_def)
  have gg: "get_prop ?good (ascii ''graph'')
              = Some (JObj [(ascii ''nodes'', JArr []), (ascii ''links'', JArr [])])"
    by (simp add: ascii_def)
  from tryLoadCache_presence_check [OF r i sb] gb
  have 1: "fst (tryLoadCache (ascii ''A'') (page_on (storage_holding (Some (JSON_text ?bad))))) = None"
    by blast
  from tryLoadCache_presence_check [OF r i sg] gg
  have 2: "fst (tryLoadCache (ascii ''A'') (page_on (storage_holding (Some (JSON_text ?good)))))
     = Some (JObj [(ascii ''nodes'', JArr []), (ascii ''links'', JArr [])])"
    by blast
  from 1 2 show ?thesis by blast
qed

subsection \<open>Building\<close>

lemma saveCache_world:
  "saveCache csig g w =
     w\<lparr>localStorage :=
         (case write_error (localStorage w) CACHE_KEY (JSON_text (cache_payload csig g)) of
            Some e \<Rightarrow> localStorage w
          | None \<Rightarrow> (localStorage w)
              \<lparr>items := (items (localStorage w))(CACHE_KEY \<mapsto> JSON_text (cache_payload csig g))\<rparr>),
       calls := calls w @ [SetItem CACHE_KEY (JSON_text (cache_payload csig g))]\<rparr>"
  by (simp add: saveCache_def setItem_def JSON_stringify_def split: option.splits)

lemma tryLoadCache_storage_only:
  "localStorage w' = localStorage w \<Longrightarrow> fst (tryLoadCache csig w') = fst (tryLoadCache csig w)"
  by (simp only: tryLoadCache_value)

lemma tryLoadCache_pair:
  "tryLoadCache csig w = (fst (tryLoadCache csig w), w\<lparr>calls := calls w @ [GetItem CACHE_KEY]\<rparr>)"
  using tryLoadCache_world [of csig w] by (cases "tryLoadCache csig w") simp

lemma buildOrLoad_hit:
  assumes "seedDois papers \<noteq> []" and "\<not> force"
      and "truthy (fst (tryLoadCache (cacheSig (seedDois papers)) w))"
  shows "buildOrLoad crawler papers force w =
           (Returns (),
            w\<lparr>graph := fst (tryLoadCache (cacheSig (seedDois papers)) w), loadingGraph := False,
              graphErr := None, calls := calls w @ [GetItem CACHE_KEY]\<rparr>)"
proof -
  let ?w1 = "w\<lparr>loadingGraph := True, graphErr := None\<rparr>"
  have c: "fst (tryLoadCache (cacheSig (seedDois papers)) ?w1)
             = fst (tryLoadCache (cacheSig (seedDois papers)) w)"
    by (rule tryLoadCache_storage_only) simp
  have "buildOrLoad_try crawler papers force w =
          (Returns (), ?w1\<lparr>calls := calls w @ [GetItem CACHE_KEY],
                          graph := fst (tryLoadCache (cacheSig (seedDois papers)) w)\<rparr>)"
    unfolding buildOrLoad_try_def Let_def
    using assms c by (subst tryLoadCache_pair) simp
  with assms(1) show ?thesis by (simp add: buildOrLoad_def)
qed

lemma buildOrLoad_crawl:
  assumes "seedDois papers \<noteq> []"
      and "force \<or> \<not> truthy (fst (tryLoadCache (cacheSig (seedDois papers)) w))"
  shows "buildOrLoad crawler papers force w =
           (let w3 = w\<lparr>calls := calls w @ (if force then [] else [GetItem CACHE_KEY])
                                  @ [BuildCitationGraph (build_args papers)]\<rparr>
            in case crawler (build_args papers) of
                 Returns g \<Rightarrow>
                   (Returns (),
                    saveCache (cacheSig (seedDois papers)) g
                      (w3\<lparr>graph := Some (graph_json g), loadingGraph := False, graphErr := None\<rparr>))
               | Throws e \<Rightarrow>
                   (Returns (), w3\<lparr>loadingGraph := False, graphErr := Some (error_message e)\<rparr>)
               | Hangs \<Rightarrow> (Hangs, w3\<lparr>loadingGraph := True, graphErr := None\<rparr>))"
proof -
  let ?w1 = "w\<lparr>loadingGraph := True, graphErr := None\<rparr>"
  have c: "fst (tryLoadCache (cacheSig (seedDois papers)) ?w1)
             = fst (tryLoadCache (cacheSig (seedDois papers)) w)"
    by (rule tryLoadCache_storage_only) simp
  show ?thesis
  proof (cases force)
    case True
    with assms(1) show ?thesis
      by (simp add: buildOrLoad_def buildOrLoad_try_def Let_def saveCache_world
               split: outcome.splits option.splits)
  next
    case False
    with assms(2) have m: "\<not> truthy (fst (tryLoadCache (cacheSig (seedDois papers)) w))"
      by simp
    have "buildOrLoad_try crawler papers force w =
            (let w3 = ?w1\<lparr>calls := calls w @ [GetItem CACHE_KEY, BuildCitationGraph (build_args papers)]\<rparr>
             in case crawler (build_args papers) of
                 Returns g \<Rightarrow>
                   (Returns (),
                    saveCache (cacheSig (seedDois papers)) g (w3\<lparr>graph := Some (graph_json g)\<rparr>))
               | Throws e \<Rightarrow> (Throws e, w3)
               | Hangs \<Rightarrow> (Hangs, w3))"
      unfolding buildOrLoad_try_def Let_def
      using False m c by (subst tryLoadCache_pair) (simp split: outcome.splits)
    with assms(1) False show ?thesis
      by (simp add: buildOrLoad_def Let_def saveCache_world split: outcome.splits option.splits)
  qed
qed

text \<open>
  With no seed the guard of \<^verbatim>\<open>buildOrLoad\<close> calls \<^verbatim>\<open>setGraph(null)\<close>: the page then holds
  no graph, which is not the graph with no nodes and no links.
\<close>

theorem buildOrLoad_no_seeds_counterexample:
  "seedDois [] = []
   \<and> buildOrLoad crawler_hanging [] False (page_on (storage_holding None))
       = (Returns (), page_on (storage_holding None))
   \<and> graph (page_on (storage_holding None)) = None
   \<and> graph (snd (buildOrLoad crawler_hanging [] False (page_on (storage_holding None))))
       \<noteq> Some (graph_json \<lparr>nodes = [], links = []\<rparr>)"
  by (simp add: buildOrLoad_def seedDois_def Array_from_new_Set_def page_on_def)

text \<open>
  C6. When the seed list is empty, \<^verbatim>\<open>buildOrLoad\<close> completes without an error, whatever
  the crawler and the storage would do: it sets \<^verbatim>\<open>graph\<close> and \<^verbatim>\<open>graphErr\<close> to \<^verbatim>\<open>null\<close>
  and makes no call.
\<close>

theorem buildOrLoad_no_seeds:
  "seedDois papers = [] \<Longrightarrow>
     buildOrLoad crawler papers force w = (Returns (), w\<lparr>graph := None, graphErr := None\<rparr>)"
  by (simp add: buildOrLoad_def)

theorem buildOrLoad_no_seeds_witness:
  "seedDois [paper_with_doi ''  '', \<lparr>doi = None, title = Some (ascii ''T'')\<rparr>] = []
   \<and> buildOrLoad (crawler_throwing TypeError)
        [paper_with_doi ''  '', \<lparr>doi = None, title = Some (ascii ''T'')\<rparr>] True
        ((page_on storage_unavailable)\<lparr>graph := Some JNull, graphErr := Some (ascii ''old'')\<rparr>)
       = (Returns (), page_on storage_unavailable)"
proof -
  have s: "seedDois [paper_with_doi ''  '', \<lparr>doi = None, title = Some (ascii ''T'')\<rparr>] = []"
    by (simp add: seed_defs)
  from buildOrLoad_no_seeds [OF s, of "crawler_throwing TypeError" True
      "(page_on storage_unavailable)\<lparr>graph := Some JNull, graphErr := Some (ascii ''old'')\<rparr>"] s
  show ?thesis by (simp add: page_on_def)
qed

text \<open>
  C4. Storing is best effort. When the crawl was reached and returned a graph, and
  \<^verbatim>\<open>setItem\<close> throws (storage unavailable or over quota), \<^verbatim>\<open>saveCache\<close> swallows what
  was thrown: \<^verbatim>\<open>buildOrLoad\<close> still completes, the page holds the graph just built, no
  error is shown, and the storage is as it was.
\<close>

theorem saveCache_failure_swallowed:
  assumes "seedDois papers \<noteq> []"
      and "force \<or> \<not> truthy (fst (tryLoadCache (cacheSig (seedDois papers)) w))"
      and "crawler (build_args papers) = Returns g"
      and "write_error (localStorage w) CACHE_KEY
             (JSON_stringify (cache_payload (cacheSig (seedDois papers)) g)) = Some e"
  shows "buildOrLoad crawler papers force w =
           (Returns (),
            w\<lparr>graph := Some (graph_json g), loadingGraph := False, graphErr := None,
              calls := calls w @ (if force then [] else [GetItem CACHE_KEY])
                 @ [BuildCitationGraph (build_args papers),
                    SetItem CACHE_KEY (JSON_stringify (cache_payload (cacheSig (seedDois papers)) g))]\<rparr>)
         \<and> saveCache (cacheSig (seedDois papers)) g w =
             w\<lparr>calls := calls w
                 @ [SetItem CACHE_KEY (JSON_stringify (cache_payload (cacheSig (seedDois papers)) g))]\<rparr>"
  using assms(3,4) buildOrLoad_crawl [OF assms(1,2), of crawler]
  by (simp add: Let_def saveCache_world JSON_stringify_def)

theorem saveCache_failure_swallowed_witness:
  "buildOrLoad (crawler_returning (graph_lonely ''A'')) [paper_with_doi ''A''] False
       (page_on (storage_full None))
     = (Returns (),
        (page_on (storage_full None))
          \<lparr>graph := Some (graph_json (graph_lonely ''A'')),
            calls := [GetItem CACHE_KEY, BuildCitationGraph (build_args [paper_with_doi ''A'']),
                      SetItem CACHE_KEY
                        (JSON_stringify (cache_payload (ascii ''A'') (graph_lonely ''A'')))]\<rparr>)
   \<and> items (localStorage (page_on (storage_full None))) CACHE_KEY = None"
proof -
  let ?ps = "[paper_with_doi ''A'']"
  let ?w = "page_on (storage_full None)"
  have s: "seedDois ?ps = [ascii ''A'']"
    by (simp add: seed_defs)
  have sg: "cacheSig (seedDois ?ps) = ascii ''A''"
    by (simp add: seed_defs)
  have n: "seedDois ?ps \<noteq> []"
    by (simp add: s)
  have m: "False \<or> \<not> truthy (fst (tryLoadCache (cacheSig (seedDois ?ps)) ?w))"
    by (simp add: tryLoadCache_value check_entry_def page_on_def storage_full_def)
  have c: "crawler_returning (graph_lonely ''A'') (build_args ?ps) = Returns (graph_lonely ''A'')"
    by (simp add: crawler_returning_def)
  have f: "write_error (localStorage ?w) CACHE_KEY
             (JSON_stringify (cache_payload (cacheSig (seedDois ?ps)) (graph_lonely ''A'')))
           = Some QuotaExceededError"
    by (simp add: page_on_def storage_full_def)
  have i: "items (localStorage ?w) CACHE_KEY = None"
    by (simp add: page_on_def storage_full_def)
  from saveCache_failure_swallowed
         [where crawler = "crawler_returning (graph_lonely ''A'')" and g = "graph_lonely ''A''",
          OF n m c f] sg i
  show ?thesis
    by (simp add: page_on_def)
qed



text \<open>
  C10. With a seed, when \<^verbatim>\<open>buildCitationGraph\<close> throws, \<^verbatim>\<open>buildOrLoad\<close> still
  completes normally: nothing is thrown to the caller, \<^verbatim>\<open>setItem\<close> is not called and
  the storage is unchanged; where the crawl was reached (forced, or no usable cache
  entry) the error message is put in \<^verbatim>\<open>graphErr\<close>, loading ends and the graph shown
  stays.
\<close>

theorem crawl_failure_keeps_cache:
  assumes "seedDois papers \<noteq> []"
      and "crawler (build_args papers) = Throws e"
  shows "fst (buildOrLoad crawler papers force w) = Returns ()
         \<and> localStorage (snd (buildOrLoad crawler papers force w)) = localStorage w
         \<and> calls (snd (buildOrLoad crawler papers force w)) =
             calls w @ (if force then [] else [GetItem CACHE_KEY])
               @ (if force \<or> \<not> truthy (fst (tryLoadCache (cacheSig (seedDois papers)) w))
                  then [BuildCitationGraph (build_args papers)] else [])
         \<and> (force \<or> \<not> truthy (fst (tryLoadCache (cacheSig (seedDois papers)) w)) \<longrightarrow>
              graphErr (snd (buildOrLoad crawler papers force w)) = Some (error_message e)
              \<and> loadingGraph (snd (buildOrLoad crawler papers force w)) = False
              \<and> graph (snd (buildOrLoad crawler papers force w)) = graph w)"
proof (cases "force \<or> \<not> truthy (fst (tryLoadCache (cacheSig (seedDois papers)) w))")
  case True
  from buildOrLoad_crawl [OF assms(1) True, of crawler] assms(2) True
  show ?thesis by (auto simp: Let_def)
next
  case False
  then have h: "\<not> force" "truthy (fst (tryLoadCache (cacheSig (seedDois papers)) w))"
    by simp_all
  from buildOrLoad_hit [OF assms(1) h, of crawler] False
  show ?thesis by simp
qed

theorem crawl_failure_keeps_cache_witness:
  "fst (buildOrLoad (crawler_throwing (Thrown (Some (ascii ''HTTP 503'')))) [paper_with_doi ''A'']
          False (page_on (storage_holding (Some (JSON_text (cache_payload (ascii ''B'') (graph_lonely ''B'')))))))
     = Returns ()
   \<and> localStorage (snd (buildOrLoad (crawler_throwing (Thrown (Some (ascii ''HTTP 503''))))
          [paper_with_doi ''A'']
          False (page_on (storage_holding (Some (JSON_text (cache_payload (ascii ''B'') (graph_lonely ''B'')))))))) 
     = storage_holding (Some (JSON_text (cache_payload (ascii ''B'') (graph_lonely ''B''))))
   \<and> calls (snd (buildOrLoad (crawler_throwing (Thrown (Some (ascii ''HTTP 503''))))
          [paper_with_doi ''A'']
          False (page_on (storage_holding (Some (JSON_text (cache_payload (ascii ''B'') (graph_lonely ''B'')))))))) 
     = [GetItem CACHE_KEY, BuildCitationGraph (build_args [paper_with_doi ''A''])]
   \<and> graphErr (snd (buildOrLoad (crawler_throwing (Thrown (Some (ascii ''HTTP 503''))))
          [paper_with_doi ''A'']
          False (page_on (storage_holding (Some (JSON_text (cache_payload (ascii ''B'') (graph_lonely ''B'')))))))) 
     = Some (ascii ''HTTP 503'')"
proof -
  let ?ps = "[paper_with_doi ''A'']"
  let ?e = "Thrown (Some (ascii ''HTTP 503''))"
  let ?w = "page_on (storage_holding (Some (JSON_text (cache_payload (ascii ''B'') (graph_lonely ''B'')))))"
  have sg: "cacheSig (seedDois ?ps) = ascii ''A''"
    by (simp add: seed_defs)
  have n: "seedDois ?ps \<noteq> []"
    by (simp add: seed_defs)
  have c: "crawler_throwing ?e (build_args ?ps) = Throws ?e"
    by (simp add: crawler_throwing_def)
  have m: "\<not> truthy (fst (tryLoadCache (cacheSig (seedDois ?ps)) ?w))"
    unfolding sg by (simp add: eval_defs)
  have em: "error_message ?e = ascii ''HTTP 503''"
    by (simp add: error_message_def ascii_def)
  have w: "localStorage ?w = storage_holding (Some (JSON_text (cache_payload (ascii ''B'') (graph_lonely ''B''))))"
      "calls ?w = []"
    by (simp_all add: page_on_def)
  from crawl_failure_keeps_cache
         [where crawler = "crawler_throwing ?e" and e = ?e and force = False and w = ?w, OF n c]
       m em w
  show ?thesis by simp
qed

subsection \<open>One build after another\<close>

lemma check_entry_cache_payload:
  "check_entry csig (Some (JSON_text (cache_payload csig g))) = Inr (Some (graph_json g))"
  by (simp add: check_entry_def JSON_parse_def destructure_def cache_payload_def graph_json_def
        ascii_def)

lemma truthy_graph_json: "truthy (Some (graph_json g))"
  by (simp add: graph_json_def)

lemma tryLoadCache_other_sig:
  assumes "fst (tryLoadCache csig w) = Some g" and "csig' \<noteq> csig"
  shows "fst (tryLoadCache csig' w) = None"
proof -
  from assms(1) have r: "read_error (localStorage w) = None"
    by (simp add: tryLoadCache_value split: option.splits)
  with assms(1) have "check_entry csig (items (localStorage w) CACHE_KEY) = Inr (Some g)"
    by (simp add: tryLoadCache_value split: sum.splits)
  from check_entry_Some [OF this] obtain payload where
    p: "items (localStorage w) CACHE_KEY = Some (JSON_text payload)"
       "get_prop payload (ascii ''sig'') = Some (JStr csig)"
    by blast
  from p(2) obtain kvs where "payload = JObj kvs"
    by (cases payload) auto
  with p assms(2) have "check_entry csig' (items (localStorage w) CACHE_KEY) = Inr None"
    by (simp add: check_entry_def JSON_parse_def destructure_def)
  with r show ?thesis by (simp add: tryLoadCache_value)
qed

lemma build_warms_cache:
  assumes ne: "seedDois papers \<noteq> []"
      and rd: "read_error (localStorage w) = None"
      and wr: "\<And>v. write_error (localStorage w) CACHE_KEY v = None"
      and b: "buildOrLoad crawler papers force w = (Returns (), w1)"
      and ok: "graphErr w1 = None"
  shows "fst (tryLoadCache (cacheSig (seedDois papers)) w1) = graph w1"
    and "truthy (graph w1)"
    and "loadingGraph w1 = False"
proof -
  let ?sig = "cacheSig (seedDois papers)"
  have "fst (tryLoadCache ?sig w1) = graph w1 \<and> truthy (graph w1) \<and> loadingGraph w1 = False"
  proof (cases "force \<or> \<not> truthy (fst (tryLoadCache ?sig w))")
    case False
    then have h: "\<not> force" "truthy (fst (tryLoadCache ?sig w))"
      by simp_all
    from buildOrLoad_hit [OF ne h, of crawler] b
    have w1: "w1 = w\<lparr>graph := fst (tryLoadCache ?sig w), loadingGraph := False,
                     graphErr := None, calls := calls w @ [GetItem CACHE_KEY]\<rparr>"
      by simp
    have "fst (tryLoadCache ?sig w1) = fst (tryLoadCache ?sig w)"
      by (rule tryLoadCache_storage_only) (simp add: w1)
    with h(2) w1 show ?thesis by simp
  next
    case True
    note c = buildOrLoad_crawl [OF ne True, of crawler]
    show ?thesis
    proof (cases "crawler (build_args papers)")
      case (Returns g)
      with c b have w1: "w1 = saveCache ?sig g
          (w\<lparr>calls := calls w @ (if force then [] else [GetItem CACHE_KEY])
                 @ [BuildCitationGraph (build_args papers)],
             graph := Some (graph_json g), loadingGraph := False, graphErr := None\<rparr>)"
        by (simp add: Let_def)
      have "fst (tryLoadCache ?sig w1) = Some (graph_json g)"
        unfolding w1 by (simp add: tryLoadCache_value saveCache_world rd wr check_entry_cache_payload)
      moreover have "graph w1 = Some (graph_json g)" "loadingGraph w1 = False"
        unfolding w1 by (simp_all add: saveCache_world)
      ultimately show ?thesis by (simp add: truthy_graph_json)
    next
      case (Throws e)
      with c b ok show ?thesis by (auto simp: Let_def)
    next
      case Hangs
      with c b show ?thesis by (simp add: Let_def)
    qed
  qed
  then show "fst (tryLoadCache (cacheSig (seedDois papers)) w1) = graph w1"
    and "truthy (graph w1)" and "loadingGraph w1 = False"
    by simp_all
qed

lemma rebuild_same_sig:
  assumes ne: "seedDois papers \<noteq> []"
      and rd: "read_error (localStorage w) = None"
      and wr: "\<And>v. write_error (localStorage w) CACHE_KEY v = None"
      and b: "buildOrLoad crawler papers force w = (Returns (), w1)"
      and ok: "graphErr w1 = None"
      and ne': "seedDois papers' \<noteq> []"
      and same: "cacheSig (seedDois papers') = cacheSig (seedDois papers)"
  shows "buildOrLoad crawler' papers' False w1 =
           (Returns (), w1\<lparr>calls := calls w1 @ [GetItem CACHE_KEY]\<rparr>)"
proof -
  note warm = build_warms_cache [OF ne rd wr b ok]
  from warm(1,2) same have h: "truthy (fst (tryLoadCache (cacheSig (seedDois papers')) w1))"
    by simp
  have nf: "\<not> False" by simp
  from buildOrLoad_hit [OF ne' nf h, of crawler'] warm(1,3) same ok
  show ?thesis by simp
qed

text \<open>
  C7. After a build for the seeds \<^verbatim>\<open>["A","B"]\<close> that succeeded on a working storage,
  the seeds \<^verbatim>\<open>["A","B","C"]\<close> have another signature (\<^verbatim>\<open>"A|B|C"\<close>, not \<^verbatim>\<open>"A|B"\<close>), so
  the effect on \<^verbatim>\<open>cacheSig\<close> runs \<^verbatim>\<open>buildOrLoad(false)\<close> again, \<^verbatim>\<open>tryLoadCache\<close> finds no
  usable entry, and the crawler is called for the three seeds: the page shows what that
  crawl returns, not the graph of the two seeds.
\<close>

theorem seed_change_misses_cache:
  assumes "seedDois papers = [ascii ''A'', ascii ''B'']"
      and "seedDois papers' = [ascii ''A'', ascii ''B'', ascii ''C'']"
      and "read_error (localStorage w) = None"
      and "\<And>v. write_error (localStorage w) CACHE_KEY v = None"
      and "buildOrLoad crawler papers force w = (Returns (), w1)"
      and "graphErr w1 = None"
  shows "cacheSig (seedDois papers) = ascii ''A|B''
         \<and> cacheSig (seedDois papers') = ascii ''A|B|C''
         \<and> cacheSig (seedDois papers') \<noteq> cacheSig (seedDois papers)
         \<and> useEffect_cacheSig crawler' (Some (cacheSig (seedDois papers))) papers' w1
             = Some (buildOrLoad crawler' papers' False w1)
         \<and> fst (tryLoadCache (cacheSig (seedDois papers')) w1) = None
         \<and> calls (snd (buildOrLoad crawler' papers' False w1)) =
             calls w1 @ [GetItem CACHE_KEY, BuildCitationGraph (build_args papers')]
               @ (case crawler' (build_args papers') of
                    Returns g \<Rightarrow>
                      [SetItem CACHE_KEY
                         (JSON_stringify (cache_payload (cacheSig (seedDois papers')) g))]
                  | Throws e \<Rightarrow> []
                  | Hangs \<Rightarrow> [])
         \<and> (crawler' (build_args papers') = Returns g' \<longrightarrow>
               graph (snd (buildOrLoad crawler' papers' False w1)) = Some (graph_json g'))"
proof -
  have s2: "cacheSig (seedDois papers) = ascii ''A|B''"
    by (simp add: assms(1) cacheSig_def ascii_def)
  have s3: "cacheSig (seedDois papers') = ascii ''A|B|C''"
    by (simp add: assms(2) cacheSig_def ascii_def)
  have d: "cacheSig (seedDois papers') \<noteq> cacheSig (seedDois papers)"
    by (simp add: s2 s3 ascii_def)
  have ne: "seedDois papers \<noteq> []" and ne': "seedDois papers' \<noteq> []"
    by (simp_all add: assms(1,2))
  note warm = build_warms_cache [OF ne assms(3) assms(4) assms(5) assms(6)]
  from warm(2) obtain g where g: "graph w1 = Some g"
    by (cases "graph w1") simp_all
  with warm(1) have "fst (tryLoadCache (cacheSig (seedDois papers)) w1) = Some g"
    by simp
  from tryLoadCache_other_sig [OF this d]
  have miss: "fst (tryLoadCache (cacheSig (seedDois papers')) w1) = None" .
  then have m: "False \<or> \<not> truthy (fst (tryLoadCache (cacheSig (seedDois papers')) w1))"
    by simp
  note c = buildOrLoad_crawl [OF ne' m, of crawler']
  have e: "useEffect_cacheSig crawler' (Some (cacheSig (seedDois papers))) papers' w1
             = Some (buildOrLoad crawler' papers' False w1)"
    using d by (simp add: useEffect_cacheSig_def)
  have l: "calls (snd (buildOrLoad crawler' papers' False w1)) =
             calls w1 @ [GetItem CACHE_KEY, BuildCitationGraph (build_args papers')]
               @ (case crawler' (build_args papers') of
                    Returns g \<Rightarrow>
                      [SetItem CACHE_KEY
                         (JSON_stringify (cache_payload (cacheSig (seedDois papers')) g))]
                  | Throws e \<Rightarrow> []
                  | Hangs \<Rightarrow> [])"
    by (cases "crawler' (build_args papers')")
       (simp_all add: c Let_def saveCache_world JSON_stringify_def)
  have f: "crawler' (build_args papers') = Returns g' \<longrightarrow>
               graph (snd (buildOrLoad crawler' papers' False w1)) = Some (graph_json g')"
    by (simp add: c Let_def saveCache_world)
  from s2 s3 d e miss l f show ?thesis by blast
qed

theorem seed_change_misses_cache_witness:
  "buildOrLoad (crawler_returning (graph_lonely ''A'')) [paper_with_doi ''A'', paper_with_doi ''B'']
       False (page_on (storage_holding None))
     = (Returns (),
        (page_on (storage_holding (Some (JSON_text (cache_payload (ascii ''A|B'') (graph_lonely ''A''))))))
          \<lparr>graph := Some (graph_json (graph_lonely ''A'')),
            calls := [GetItem CACHE_KEY,
                      BuildCitationGraph (build_args [paper_with_doi ''A'', paper_with_doi ''B'']),
                      SetItem CACHE_KEY (JSON_text (cache_payload (ascii ''A|B'') (graph_lonely ''A'')))]\<rparr>)
   \<and> fst (tryLoadCache (ascii ''A|B|C'')
        ((page_on (storage_holding (Some (JSON_text (cache_payload (ascii ''A|B'') (graph_lonely ''A''))))))
          \<lparr>graph := Some (graph_json (graph_lonely ''A'')),
            calls := [GetItem CACHE_KEY,
                      BuildCitationGraph (build_args [paper_with_doi ''A'', paper_with_doi ''B'']),
                      SetItem CACHE_KEY (JSON_text (cache_payload (ascii ''A|B'') (graph_lonely ''A'')))]\<rparr>))
     = None
   \<and> graph (snd (buildOrLoad (crawler_returning (graph_lonely ''C''))
        [paper_with_doi ''A'', paper_with_doi ''B'', paper_with_doi ''C''] False
        ((page_on (storage_holding (Some (JSON_text (cache_payload (ascii ''A|B'') (graph_lonely ''A''))))))
          \<lparr>graph := Some (graph_json (graph_lonely ''A'')),
            calls := [GetItem CACHE_KEY,
                      BuildCitationGraph (build_args [paper_with_doi ''A'', paper_with_doi ''B'']),
                      SetItem CACHE_KEY (JSON_text (cache_payload (ascii ''A|B'') (graph_lonely ''A'')))]\<rparr>)))
     = Some (graph_json (graph_lonely ''C''))"
proof -
  let ?ps = "[paper_with_doi ''A'', paper_with_doi ''B'']"
  let ?ps' = "[paper_with_doi ''A'', paper_with_doi ''B'', paper_with_doi ''C'']"
  let ?w = "page_on (storage_holding None)"
  let ?w1 = "(page_on (storage_holding (Some (JSON_text (cache_payload (ascii ''A|B'') (graph_lonely ''A''))))))
          \<lparr>graph := Some (graph_json (graph_lonely ''A'')),
            calls := [GetItem CACHE_KEY,
                      BuildCitationGraph (build_args [paper_with_doi ''A'', paper_with_doi ''B'']),
                      SetItem CACHE_KEY (JSON_text (cache_payload (ascii ''A|B'') (graph_lonely ''A'')))]\<rparr>"
  have s: "seedDois ?ps = [ascii ''A'', ascii ''B'']"
    and s': "seedDois ?ps' = [ascii ''A'', ascii ''B'', ascii ''C'']"
    by (simp_all add: seed_defs)
  have sg: "cacheSig (seedDois ?ps) = ascii ''A|B''"
    by (simp add: s cacheSig_def ascii_def)
  have n: "seedDois ?ps \<noteq> []"
    by (simp add: s)
  have rd: "read_error (localStorage ?w) = None"
    by (simp add: page_on_def storage_holding_def)
  have wr: "\<And>v. write_error (localStorage ?w) CACHE_KEY v = None"
    by (simp add: page_on_def storage_holding_def)
  have m: "False \<or> \<not> truthy (fst (tryLoadCache (cacheSig (seedDois ?ps)) ?w))"
    by (simp add: tryLoadCache_value check_entry_def page_on_def storage_holding_def)
  have b: "buildOrLoad (crawler_returning (graph_lonely ''A'')) ?ps False ?w = (Returns (), ?w1)"
    using buildOrLoad_crawl [OF n m, of "crawler_returning (graph_lonely ''A'')"]
    by (simp add: sg crawler_returning_def Let_def saveCache_world page_on_def storage_holding_def
          fun_eq_iff)
  have ok: "graphErr ?w1 = None"
    by (simp add: page_on_def)
  have c: "crawler_returning (graph_lonely ''C'') (build_args ?ps') = Returns (graph_lonely ''C'')"
    by (simp add: crawler_returning_def)
  note t = seed_change_misses_cache
         [where crawler' = "crawler_returning (graph_lonely ''C'')" and g' = "graph_lonely ''C''",
          OF s s' rd wr b ok]
  from t have sg': "cacheSig (seedDois ?ps') = ascii ''A|B|C''"
    by blast
  from t have "fst (tryLoadCache (cacheSig (seedDois ?ps')) ?w1) = None"
    by blast
  then have 1: "fst (tryLoadCache (ascii ''A|B|C'') ?w1) = None"
    by (simp only: sg')
  from t c have 2: "graph (snd (buildOrLoad (crawler_returning (graph_lonely ''C'')) ?ps' False ?w1))
      = Some (graph_json (graph_lonely ''C''))"
    by blast
  from b 1 2 show ?thesis by blast
qed

text \<open>
  C8. After a build that succeeded on a working storage, \<^verbatim>\<open>buildOrLoad(false)\<close> with
  the same papers changes nothing but the list of calls, to which it adds the one
  \<^verbatim>\<open>getItem\<close>: the graph shown is the same graph, which is the cached one, and the crawler
  is not called, whatever it would have done.
\<close>

theorem rebuild_idempotent:
  assumes "seedDois papers \<noteq> []"
      and "read_error (localStorage w) = None"
      and "\<And>v. write_error (localStorage w) CACHE_KEY v = None"
      and "buildOrLoad crawler papers False w = (Returns (), w1)"
      and "graphErr w1 = None"
  shows "buildOrLoad crawler' papers False w1 =
           (Returns (), w1\<lparr>calls := calls w1 @ [GetItem CACHE_KEY]\<rparr>)
         \<and> graph (snd (buildOrLoad crawler' papers False w1)) = graph w1
         \<and> graph w1 = fst (tryLoadCache (cacheSig (seedDois papers)) w1)
         \<and> graph w1 \<noteq> None
         \<and> crawls (snd (buildOrLoad crawler' papers False w1)) = crawls w1"
proof -
  note r = rebuild_same_sig [OF assms(1) assms(2) assms(3) assms(4) assms(5) assms(1) refl, of crawler']
  note warm = build_warms_cache [OF assms]
  from warm(2) have "graph w1 \<noteq> None"
    by (cases "graph w1") simp_all
  with r warm(1) show ?thesis by (simp add: crawls_def)
qed

theorem rebuild_idempotent_witness:
  "buildOrLoad (crawler_returning (graph_lonely ''A'')) [paper_with_doi ''A''] False
       (page_on (storage_holding None))
     = (Returns (),
        (page_on (storage_holding (Some (JSON_text (cache_payload (ascii ''A'') (graph_lonely ''A''))))))
          \<lparr>graph := Some (graph_json (graph_lonely ''A'')),
            calls := [GetItem CACHE_KEY, BuildCitationGraph (build_args [paper_with_doi ''A'']),
                      SetItem CACHE_KEY (JSON_text (cache_payload (ascii ''A'') (graph_lonely ''A'')))]\<rparr>)
   \<and> buildOrLoad crawler_hanging [paper_with_doi ''A''] False
       ((page_on (storage_holding (Some (JSON_text (cache_payload (ascii ''A'') (graph_lonely ''A''))))))
          \<lparr>graph := Some (graph_json (graph_lonely ''A'')),
            calls := [GetItem CACHE_KEY, BuildCitationGraph (build_args [paper_with_doi ''A'']),
                      SetItem CACHE_KEY (JSON_text (cache_payload (ascii ''A'') (graph_lonely ''A'')))]\<rparr>)
     = (Returns (),
        (page_on (storage_holding (Some (JSON_text (cache_payload (ascii ''A'') (graph_lonely ''A''))))))
          \<lparr>graph := Some (graph_json (graph_lonely ''A'')),
            calls := [GetItem CACHE_KEY, BuildCitationGraph (build_args [paper_with_doi ''A'']),
                      SetItem CACHE_KEY (JSON_text (cache_payload (ascii ''A'') (graph_lonely ''A''))),
                      GetItem CACHE_KEY]\<rparr>)"
proof -
  let ?ps = "[paper_with_doi ''A'']"
  let ?w = "page_on (storage_holding None)"
  let ?w1 = "(page_on (storage_holding (Some (JSON_text (cache_payload (ascii ''A'') (graph_lonely ''A''))))))
          \<lparr>graph := Some (graph_json (graph_lonely ''A'')),
            calls := [GetItem CACHE_KEY, BuildCitationGraph (build_args [paper_with_doi ''A'']),
                      SetItem CACHE_KEY (JSON_text (cache_payload (ascii ''A'') (graph_lonely ''A'')))]\<rparr>"
  have s: "seedDois ?ps = [ascii ''A'']" and sg: "cacheSig (seedDois ?ps) = ascii ''A''"
    by (simp_all add: seed_defs)
  have n: "seedDois ?ps \<noteq> []"
    by (simp add: s)
  have rd: "read_error (localStorage ?w) = None"
    by (simp add: page_on_def storage_holding_def)
  have wr: "\<And>v. write_error (localStorage ?w) CACHE_KEY v = None"
    by (simp add: page_on_def storage_holding_def)
  have m: "False \<or> \<not> truthy (fst (tryLoadCache (cacheSig (seedDois ?ps)) ?w))"
    by (simp add: tryLoadCache_value check_entry_def page_on_def storage_holding_def)
  have b: "buildOrLoad (crawler_returning (graph_lonely ''A'')) ?ps False ?w = (Returns (), ?w1)"
    using buildOrLoad_crawl [OF n m, of "crawler_returning (graph_lonely ''A'')"]
    by (simp add: sg crawler_returning_def Let_def saveCache_world page_on_def storage_holding_def
          fun_eq_iff)
  have ok: "graphErr ?w1 = None"
    by (simp add: page_on_def)
  from rebuild_idempotent [OF n rd wr b ok, of crawler_hanging] b
  show ?thesis by simp
qed

text \<open>
  C9. The signature does not tell the seed sets apart: the seeds \<^verbatim>\<open>["a|b"]\<close> and
  \<^verbatim>\<open>["a","b"]\<close> are different sets with the same signature \<^verbatim>\<open>"a|b"\<close>, since the
  separator may occur in an identifier. An entry saved for the first is a hit for the
  second, and a build for the second after a build for the first shows the first's
  graph without calling the crawler.
\<close>

theorem cacheSig_not_injective:
  "seedDois [paper_with_doi ''a|b''] = [ascii ''a|b'']
   \<and> seedDois [paper_with_doi ''a'', paper_with_doi ''b''] = [ascii ''a'', ascii ''b'']
   \<and> set [ascii ''a|b''] \<noteq> set [ascii ''a'', ascii ''b'']
   \<and> cacheSig [ascii ''a|b''] = cacheSig [ascii ''a'', ascii ''b'']
   \<and> (read_error (localStorage w) = None
        \<and> write_error (localStorage w) CACHE_KEY
             (JSON_stringify (cache_payload (cacheSig [ascii ''a|b'']) g)) = None
       \<longrightarrow> fst (tryLoadCache (cacheSig [ascii ''a'', ascii ''b''])
                   (saveCache (cacheSig [ascii ''a|b'']) g w))
             = Some (graph_json g))
   \<and> (read_error (localStorage w) = None
        \<and> (\<forall>v. write_error (localStorage w) CACHE_KEY v = None)
        \<and> buildOrLoad crawler [paper_with_doi ''a|b''] force w = (Returns (), w1)
        \<and> graphErr w1 = None
       \<longrightarrow> buildOrLoad crawler' [paper_with_doi ''a'', paper_with_doi ''b''] False w1
             = (Returns (), w1\<lparr>calls := calls w1 @ [GetItem CACHE_KEY]\<rparr>))"
proof -
  let ?p1 = "[paper_with_doi ''a|b'']"
  let ?p2 = "[paper_with_doi ''a'', paper_with_doi ''b'']"
  have s1: "seedDois ?p1 = [ascii ''a|b'']" and s2: "seedDois ?p2 = [ascii ''a'', ascii ''b'']"
    by (simp_all add: seed_defs)
  have d: "set [ascii ''a|b''] \<noteq> set [ascii ''a'', ascii ''b'']"
    by (simp add: ascii_def)
  have e: "cacheSig [ascii ''a|b''] = cacheSig [ascii ''a'', ascii ''b'']"
    by (simp add: cacheSig_def ascii_def)
  have l: "read_error (localStorage w) = None
        \<and> write_error (localStorage w) CACHE_KEY
             (JSON_stringify (cache_payload (cacheSig [ascii ''a|b'']) g)) = None
       \<longrightarrow> fst (tryLoadCache (cacheSig [ascii ''a'', ascii ''b''])
                   (saveCache (cacheSig [ascii ''a|b'']) g w))
             = Some (graph_json g)"
    by (simp add: e [symmetric] tryLoadCache_value saveCache_world JSON_stringify_def
          check_entry_cache_payload)
  have b: "read_error (localStorage w) = None
        \<and> (\<forall>v. write_error (localStorage w) CACHE_KEY v = None)
        \<and> buildOrLoad crawler ?p1 force w = (Returns (), w1)
        \<and> graphErr w1 = None
       \<longrightarrow> buildOrLoad crawler' ?p2 False w1
             = (Returns (), w1\<lparr>calls := calls w1 @ [GetItem CACHE_KEY]\<rparr>)"
  proof
    assume a: "read_error (localStorage w) = None
        \<and> (\<forall>v. write_error (localStorage w) CACHE_KEY v = None)
        \<and> buildOrLoad crawler ?p1 force w = (Returns (), w1)
        \<and> graphErr w1 = None"
    have n1: "seedDois ?p1 \<noteq> []" and n2: "seedDois ?p2 \<noteq> []"
      by (simp_all add: s1 s2)
    have same: "cacheSig (seedDois ?p2) = cacheSig (seedDois ?p1)"
      by (simp add: s1 s2 e)
    from a have rd: "read_error (localStorage w) = None"
      and wr: "\<And>v. write_error (localStorage w) CACHE_KEY v = None"
      and bl: "buildOrLoad crawler ?p1 force w = (Returns (), w1)"
      and ok: "graphErr w1 = None"
      by simp_all
    from rebuild_same_sig [OF n1 rd wr bl ok n2 same, of crawler']
    show "buildOrLoad crawler' ?p2 False w1
             = (Returns (), w1\<lparr>calls := calls w1 @ [GetItem CACHE_KEY]\<rparr>)" .
  qed
  from s1 s2 d e l b show ?thesis by blast
qed

theorem cacheSig_not_injective_witness:
  "cacheSig [ascii ''a|b''] = ascii ''a|b''
   \<and> cacheSig [ascii ''a'', ascii ''b''] = ascii ''a|b''
   \<and> fst (tryLoadCache (cacheSig [ascii ''a'', ascii ''b''])
            (saveCache (cacheSig [ascii ''a|b'']) (graph_lonely ''a|b'')
               (page_on (storage_holding None))))
       = Some (graph_json (graph_lonely ''a|b''))
   \<and> buildOrLoad (crawler_returning (graph_lonely ''a|b'')) [paper_with_doi ''a|b''] False
        (page_on (storage_holding None))
       = (Returns (),
          (page_on (storage_holding
             (Some (JSON_text (cache_payload (ascii ''a|b'') (graph_lonely ''a|b''))))))
            \<lparr>graph := Some (graph_json (graph_lonely ''a|b'')),
              calls := [GetItem CACHE_KEY, BuildCitationGraph (build_args [paper_with_doi ''a|b'']),
                        SetItem CACHE_KEY
                          (JSON_text (cache_payload (ascii ''a|b'') (graph_lonely ''a|b'')))]\<rparr>)
   \<and> buildOrLoad crawler_hanging [paper_with_doi ''a'', paper_with_doi ''b''] False
        ((page_on (storage_holding
             (Some (JSON_text (cache_payload (ascii ''a|b'') (graph_lonely ''a|b''))))))
            \<lparr>graph := Some (graph_json (graph_lonely ''a|b'')),
              calls := [GetItem CACHE_KEY, BuildCitationGraph (build_args [paper_with_doi ''a|b'']),
                        SetItem CACHE_KEY
                          (JSON_text (cache_payload (ascii ''a|b'') (graph_lonely ''a|b'')))]\<rparr>)
       = (Returns (),
          (page_on (storage_holding
             (Some (JSON_text (cache_payload (ascii ''a|b'') (graph_lonely ''a|b''))))))
            \<lparr>graph := Some (graph_json (graph_lonely ''a|b'')),
              calls := [GetItem CACHE_KEY, BuildCitationGraph (build_args [paper_with_doi ''a|b'']),
                        SetItem CACHE_KEY
                          (JSON_text (cache_payload (ascii ''a|b'') (graph_lonely ''a|b''))),
                        GetItem CACHE_KEY]\<rparr>)"
proof -
  let ?p1 = "[paper_with_doi ''a|b'']"
  let ?w = "page_on (storage_holding None)"
  let ?g = "graph_lonely ''a|b''"
  let ?w1 = "(page_on (storage_holding
             (Some (JSON_text (cache_payload (ascii ''a|b'') (graph_lonely ''a|b''))))))
            \<lparr>graph := Some (graph_json (graph_lonely ''a|b'')),
              calls := [GetItem CACHE_KEY, BuildCitationGraph (build_args [paper_with_doi ''a|b'']),
                        SetItem CACHE_KEY
                          (JSON_text (cache_payload (ascii ''a|b'') (graph_lonely ''a|b'')))]\<rparr>"
  have c1: "cacheSig [ascii ''a|b''] = ascii ''a|b''"
    and c2: "cacheSig [ascii ''a'', ascii ''b''] = ascii ''a|b''"
    by (simp_all add: cacheSig_def ascii_def)
  have s1: "seedDois ?p1 = [ascii ''a|b'']"
    by (simp add: seed_defs)
  have n: "seedDois ?p1 \<noteq> []"
    by (simp add: s1)
  have rd: "read_error (localStorage ?w) = None"
    by (simp add: page_on_def storage_holding_def)
  have wr: "\<forall>v. write_error (localStorage ?w) CACHE_KEY v = None"
    by (simp add: page_on_def storage_holding_def)
  have m: "False \<or> \<not> truthy (fst (tryLoadCache (cacheSig (seedDois ?p1)) ?w))"
    by (simp add: tryLoadCache_value check_entry_def page_on_def storage_holding_def)
  have b: "buildOrLoad (crawler_returning ?g) ?p1 False ?w = (Returns (), ?w1)"
    using buildOrLoad_crawl [OF n m, of "crawler_returning ?g"]
    by (simp add: s1 c1 crawler_returning_def Let_def saveCache_world page_on_def
          storage_holding_def fun_eq_iff)
  have ok: "graphErr ?w1 = None"
    by (simp add: page_on_def)
  note t = cacheSig_not_injective
             [where w = ?w and g = ?g and crawler = "crawler_returning ?g" and force = False
                and ?w1.0 = ?w1 and crawler' = crawler_hanging]
  from t rd wr have 1: "fst (tryLoadCache (cacheSig [ascii ''a'', ascii ''b''])
            (saveCache (cacheSig [ascii ''a|b'']) ?g ?w)) = Some (graph_json ?g)"
    by blast
  from t rd wr b ok
  have 2: "buildOrLoad crawler_hanging [paper_with_doi ''a'', paper_with_doi ''b''] False ?w1
       = (Returns (), ?w1\<lparr>calls := calls ?w1 @ [GetItem CACHE_KEY]\<rparr>)"
    by blast
  from c1 c2 1 2 b show ?thesis by simp
qed

end
